theory Spec2Isabelle
  imports Complex_Main "HOL-Library.AList"
begin

section \<open>The Mureka API client (src/src/index.ts)\<close>

text \<open>
  The client is one function, \<open>createClient\<close>, whose inner function \<open>request\<close> is the
  single place where an HTTP call is issued, the outcome is classified and the body is
  validated. Every endpoint function builds its options and calls \<open>request\<close>.

  The platform (\<open>fetch\<close>, \<open>JSON.parse\<close>, \<open>JSON.stringify\<close>) and the two libraries
  (\<open>@superbuilders/errors\<close>, \<open>zod\<close>) are not code of the repository. The platform is a
  parameter of the model; errors are modelled by their constructors \<open>errors.new\<close> and
  \<open>errors.wrap\<close>; of zod the model has the constructs the schemas of the file use, with
  zod's default behaviour for objects (undeclared keys are stripped from the output).

  A string is the list of its code units; the model only joins strings, compares them
  and tests whether one is empty. \<open>String.prototype.toLowerCase\<close> and
  \<open>String.prototype.trim\<close> are functions of the platform too, so that what is proved
  holds for every text, whatever letters and blanks it has. Where a name of the source is a keyword of Isabelle the field has a longer
  name: \<open>http_method\<close> for \<open>method\<close>, \<open>upload_file\<close> and \<open>part_file\<close> for \<open>file\<close>,
  \<open>body_text\<close> for what \<open>text()\<close> gives; \<open>song_model\<close> and \<open>song_prompt\<close> are
  \<open>model\<close> and \<open>prompt\<close> of the song input.
\<close>

subsection \<open>Errors\<close>

text \<open>
  \<open>errors.new(msg)\<close> is \<open>New msg\<close>, \<open>errors.wrap(cause, msg)\<close> is \<open>Wrap cause msg\<close>.
  \<open>Thrown\<close> is a rejection or exception of the platform (of \<open>fetch\<close>,
  \<open>response.text()\<close>, \<open>JSON.parse\<close>), \<open>ZodError\<close> the list of issues of a failed
  validation.
\<close>

datatype pathseg = Key string | Index nat

datatype zcode =
    invalid_type string string
  | invalid_enum_value "string list" string

record ZodIssue =
  code :: zcode
  path :: "pathseg list"

datatype error =
    New string
  | Wrap error string
  | Thrown string
  | ZodError "ZodIssue list"

definition ErrInvalidRequest :: error where
  "ErrInvalidRequest = New ''(status: 400) the request parameters are incorrect''"

definition ErrInvalidAuthentication :: error where
  "ErrInvalidAuthentication = New ''(status: 401) invalid authentication''"

definition ErrForbidden :: error where
  "ErrForbidden = New ''(status: 403) accessing the api from an unsupported region''"

definition ErrRateLimitOrQuotaExceeded :: error where
  "ErrRateLimitOrQuotaExceeded =
     New ''(status: 429) sending requests too quickly or current quota exceeded''"

definition ErrServerError :: error where
  "ErrServerError = New ''(status: 500) issue on our servers''"

definition ErrEngineOverloaded :: error where
  "ErrEngineOverloaded = New ''(status: 503) servers experiencing high traffic''"

definition STATUS_TO_ERROR :: "nat \<Rightarrow> error option" where
  "STATUS_TO_ERROR s =
     (if s = 400 then Some ErrInvalidRequest
      else if s = 401 then Some ErrInvalidAuthentication
      else if s = 403 then Some ErrForbidden
      else if s = 429 then Some ErrRateLimitOrQuotaExceeded
      else if s = 500 then Some ErrServerError
      else if s = 503 then Some ErrEngineOverloaded
      else None)"

definition MUREKA_API_BASE_URL :: string where
  "MUREKA_API_BASE_URL = ''https://api.mureka.ai''"

definition TASK_STATUSES :: "string list" where
  "TASK_STATUSES =
     [''preparing'', ''queued'', ''running'', ''succeeded'', ''failed'', ''timeouted'',
      ''cancelled'']"

definition SECTION_TYPES :: "string list" where
  "SECTION_TYPES =
     [''intro'', ''verse'', ''pre-chorus'', ''chorus'', ''bridge'', ''breakdown'', ''outro'']"

subsection \<open>JSON values and the zod validator\<close>

text \<open>
  A parsed JSON value. A number is the rational a finite double denotes (\<open>JSON.parse\<close>
  gives no \<open>NaN\<close>; a literal too large for a double is left out). An object is its list
  of properties, read with \<open>map_of\<close>.
\<close>

datatype json =
    JNull
  | JBool bool
  | JNum rat
  | JStr string
  | JArr "json list"
  | JObj "(string \<times> json) list"

datatype zschema =
    ZString
  | ZInt
  | ZEnum "string list"
  | ZArray zschema
  | ZObject "(string \<times> zschema) list"
  | ZOptional zschema

fun typeof :: "json \<Rightarrow> string" where
  "typeof JNull = ''null''"
| "typeof (JBool b) = ''boolean''"
| "typeof (JNum n) = ''number''"
| "typeof (JStr s) = ''string''"
| "typeof (JArr xs) = ''array''"
| "typeof (JObj xs) = ''object''"

definition isInteger :: "rat \<Rightarrow> bool" where
  "isInteger r = (of_int \<lfloor>r\<rfloor> = r)"

fun joinValues :: "string list \<Rightarrow> string" where
  "joinValues [] = []"
| "joinValues [v] = [CHR 0x27] @ v @ [CHR 0x27]"
| "joinValues (v # vs) = [CHR 0x27] @ v @ [CHR 0x27] @ '' | '' @ joinValues vs"

fun expected :: "zschema \<Rightarrow> string" where
  "expected ZString = ''string''"
| "expected ZInt = ''number''"
| "expected (ZEnum vs) = joinValues vs"
| "expected (ZArray s) = ''array''"
| "expected (ZObject sh) = ''object''"
| "expected (ZOptional s) = expected s"

definition issue :: "zcode \<Rightarrow> ZodIssue" where
  "issue c = \<lparr>code = c, path = []\<rparr>"

definition under :: "pathseg \<Rightarrow> ZodIssue list \<Rightarrow> ZodIssue list" where
  "under seg = map (\<lambda>i. i\<lparr>path := seg # path i\<rparr>)"

text \<open>
  \<open>schema.safeParse(value)\<close>: the issues of the whole value (each with the path to the
  place it is about), or the output. For an object the output is built from the declared
  keys, in their order; a declared key that is absent is an issue unless its schema is
  optional, and then the output has no such key. Keys that are not declared are not read.
\<close>

fun safeParse :: "zschema \<Rightarrow> json \<Rightarrow> ZodIssue list + json"
and parse_items :: "zschema \<Rightarrow> nat \<Rightarrow> json list \<Rightarrow> ZodIssue list + json list"
and parse_shape ::
  "(string \<times> zschema) list \<Rightarrow> (string \<times> json) list \<Rightarrow> ZodIssue list + (string \<times> json) list"
where
  "safeParse ZString j =
     (case j of JStr s \<Rightarrow> Inr (JStr s)
      | _ \<Rightarrow> Inl [issue (invalid_type ''string'' (typeof j))])"
| "safeParse ZInt j =
     (case j of
        JNum n \<Rightarrow> if isInteger n then Inr (JNum n)
                  else Inl [issue (invalid_type ''integer'' ''float'')]
      | _ \<Rightarrow> Inl [issue (invalid_type ''number'' (typeof j))])"
| "safeParse (ZEnum vs) j =
     (case j of
        JStr s \<Rightarrow> if s \<in> set vs then Inr (JStr s)
                  else Inl [issue (invalid_enum_value vs s)]
      | _ \<Rightarrow> Inl [issue (invalid_type (joinValues vs) (typeof j))])"
| "safeParse (ZArray s) j =
     (case j of
        JArr xs \<Rightarrow> map_sum id JArr (parse_items s 0 xs)
      | _ \<Rightarrow> Inl [issue (invalid_type ''array'' (typeof j))])"
| "safeParse (ZObject sh) j =
     (case j of
        JObj xs \<Rightarrow> map_sum id JObj (parse_shape sh xs)
      | _ \<Rightarrow> Inl [issue (invalid_type ''object'' (typeof j))])"
| "safeParse (ZOptional s) j = safeParse s j"
| "parse_items s i [] = Inr []"
| "parse_items s i (x # xs) =
     (case (safeParse s x, parse_items s (Suc i) xs) of
        (Inr v, Inr vs) \<Rightarrow> Inr (v # vs)
      | (Inr v, Inl es) \<Rightarrow> Inl es
      | (Inl e, Inr vs) \<Rightarrow> Inl (under (Index i) e)
      | (Inl e, Inl es) \<Rightarrow> Inl (under (Index i) e @ es))"
| "parse_shape [] xs = Inr []"
| "parse_shape ((k, s) # sh) xs =
     (case (case map_of xs k of
              None \<Rightarrow> (case s of
                         ZOptional _ \<Rightarrow> Inr None
                       | _ \<Rightarrow> Inl [issue (invalid_type (expected s) ''undefined'')])
            | Some x \<Rightarrow> map_sum id Some (safeParse s x),
            parse_shape sh xs) of
        (Inr None, Inr vs) \<Rightarrow> Inr vs
      | (Inr (Some v), Inr vs) \<Rightarrow> Inr ((k, v) # vs)
      | (Inr _, Inl es) \<Rightarrow> Inl es
      | (Inl e, Inr vs) \<Rightarrow> Inl (under (Key k) e)
      | (Inl e, Inl es) \<Rightarrow> Inl (under (Key k) e @ es))"

subsection \<open>The response schemas\<close>

definition UploadFileResponseSchema :: zschema where
  "UploadFileResponseSchema =
     ZObject [(''id'', ZString), (''bytes'', ZInt), (''created_at'', ZInt),
              (''filename'', ZString), (''purpose'', ZString)]"

definition SongLyricsLineSchema :: zschema where
  "SongLyricsLineSchema = ZObject [(''start'', ZInt), (''end'', ZInt), (''text'', ZString)]"

definition SongLyricsSectionSchema :: zschema where
  "SongLyricsSectionSchema =
     ZObject [(''section_type'', ZEnum SECTION_TYPES), (''start'', ZInt), (''end'', ZInt),
              (''lines'', ZArray SongLyricsLineSchema)]"

definition SongChoiceSchema :: zschema where
  "SongChoiceSchema =
     ZObject [(''index'', ZInt), (''url'', ZString), (''flac_url'', ZString),
              (''duration'', ZInt), (''lyrics_sections'', ZArray SongLyricsSectionSchema)]"

definition GenerateSongResponseSchema :: zschema where
  "GenerateSongResponseSchema =
     ZObject [(''id'', ZString), (''created_at'', ZInt), (''finished_at'', ZInt),
              (''model'', ZString), (''status'', ZEnum TASK_STATUSES),
              (''failed_reason'', ZOptional ZString), (''choices'', ZArray SongChoiceSchema)]"

definition QuerySongTaskResponseSchema :: zschema where
  "QuerySongTaskResponseSchema =
     ZObject [(''id'', ZString), (''created_at'', ZInt), (''finished_at'', ZInt),
              (''model'', ZString), (''status'', ZEnum TASK_STATUSES),
              (''failed_reason'', ZOptional ZString), (''choices'', ZArray SongChoiceSchema)]"

definition InstrumentalChoiceSchema :: zschema where
  "InstrumentalChoiceSchema =
     ZObject [(''index'', ZInt), (''url'', ZString), (''flac_url'', ZString),
              (''duration'', ZInt)]"

definition GenerateInstrumentalResponseSchema :: zschema where
  "GenerateInstrumentalResponseSchema =
     ZObject [(''id'', ZString), (''created_at'', ZInt), (''finished_at'', ZInt),
              (''model'', ZString), (''status'', ZEnum TASK_STATUSES),
              (''failed_reason'', ZOptional ZString),
              (''choices'', ZArray InstrumentalChoiceSchema)]"

definition AddUploadPartResponseSchema :: zschema where
  "AddUploadPartResponseSchema =
     ZObject [(''id'', ZString), (''upload_id'', ZString), (''created_at'', ZInt)]"

definition MurekaApiErrorEnvelopeSchema :: zschema where
  "MurekaApiErrorEnvelopeSchema = ZObject [(''error'', ZObject [(''message'', ZString)])]"

subsection \<open>The platform\<close>

text \<open>
  A \<open>File\<close> is its name and its bytes. A request body is a string or a \<open>FormData\<close>, the
  list of the entries appended to it. A response is its status and what \<open>response.text()\<close>
  resolves to (\<open>Inl\<close>: it rejects); \<open>response.ok\<close> is a status from 200 to 299 and
  \<open>response.json()\<close> is \<open>JSON.parse\<close> of the text.
\<close>

datatype File = File (file_name: string) (file_bytes: "nat list")

datatype FormDataEntryValue = FormString string | FormFile File

datatype BodyInit = StringBody string | FormDataBody "(string \<times> FormDataEntryValue) list"

record RequestInit =
  http_method :: string
  body :: "BodyInit option"
  headers :: "(string \<times> string) list option"

record fetch_call =
  url :: string
  init :: RequestInit

record Response =
  status :: nat
  body_text :: "string + string"

record platform =
  fetch :: "fetch_call \<Rightarrow> string + Response"
  JSON_parse :: "string \<Rightarrow> string + json"
  JSON_stringify :: "json \<Rightarrow> string"
  toLowerCase :: "string \<Rightarrow> string"
  trim :: "string \<Rightarrow> string"

definition ok :: "Response \<Rightarrow> bool" where
  "ok r = (200 \<le> status r \<and> status r \<le> 299)"

definition response_json :: "platform \<Rightarrow> Response \<Rightarrow> string + json" where
  "response_json P r = (case body_text r of Inl cause \<Rightarrow> Inl cause | Inr t \<Rightarrow> JSON_parse P t)"

subsection \<open>Strings\<close>

text \<open>
  The number of a status as the template literal prints it, and, for the examples, what
  \<open>toLowerCase\<close> and \<open>trim\<close> do on ASCII text: the letters \<open>A\<close> to \<open>Z\<close> become
  \<open>a\<close> to \<open>z\<close>, and the blanks are the six ASCII white space characters.
\<close>

definition lower_char :: "char \<Rightarrow> char" where
  "lower_char c =
     (case map_of (zip ''ABCDEFGHIJKLMNOPQRSTUVWXYZ'' ''abcdefghijklmnopqrstuvwxyz'') c of
        None \<Rightarrow> c
      | Some l \<Rightarrow> l)"

definition ascii_toLowerCase :: "string \<Rightarrow> string" where
  "ascii_toLowerCase = map lower_char"

definition is_space :: "char \<Rightarrow> bool" where
  "is_space c = ((9 \<le> (of_char c :: nat) \<and> (of_char c :: nat) \<le> 13) \<or> (of_char c :: nat) = 32)"

definition ascii_trim :: "string \<Rightarrow> string" where
  "ascii_trim s = rev (dropWhile is_space (rev (dropWhile is_space s)))"

definition digit :: "nat \<Rightarrow> char" where
  "digit d = ''0123456789'' ! d"

fun string_of_nat :: "nat \<Rightarrow> string" where
  "string_of_nat n =
     (if n < 10 then [digit n] else string_of_nat (n div 10) @ [digit (n mod 10)])"

subsection \<open>createClient and request\<close>

record ClientConfig =
  apiKey :: "string option"
  apiBaseUrl :: "string option"

text \<open>
  The client returned by \<open>createClient\<close> is a record of functions that close over the two
  constants \<open>apiKey\<close> and \<open>apiBaseUrl\<close>; the model's client is this pair, and every
  endpoint function takes it.
\<close>

datatype Client = Client (the_apiKey: string) (the_apiBaseUrl: string)

definition createClient :: "ClientConfig \<Rightarrow> error + Client" where
  "createClient config =
     (case apiKey config of
        None \<Rightarrow> Inl (New ''mureka api key required'')
      | Some k \<Rightarrow>
          Inr (Client k (case apiBaseUrl config of None \<Rightarrow> MUREKA_API_BASE_URL | Some b \<Rightarrow> b)))"

text \<open>
  What a call returns: the calls of \<open>fetch\<close> it made and the value it resolves to or the
  error it throws.
\<close>

record outcome =
  fetched :: "fetch_call list"
  result :: "error + json"

definition property :: "json \<Rightarrow> string \<Rightarrow> json option" where
  "property j k = (case j of JObj xs \<Rightarrow> map_of xs k | _ \<Rightarrow> None)"

text \<open>\<open>envelope.data.error.message\<close>, of a value the envelope schema has accepted.\<close>

definition envelope_message :: "json \<Rightarrow> string" where
  "envelope_message envelope =
     (case property envelope ''error'' of
        Some e \<Rightarrow> (case property e ''message'' of Some (JStr m) \<Rightarrow> m | _ \<Rightarrow> [])
      | None \<Rightarrow> [])"

text \<open>The argument of \<open>fetch\<close> in \<open>request\<close> (lines 639 to 646).\<close>

definition fetch_args :: "Client \<Rightarrow> string \<Rightarrow> RequestInit \<Rightarrow> fetch_call" where
  "fetch_args c endpoint options =
     \<lparr>url = the_apiBaseUrl c @ endpoint,
      init = options\<lparr>headers :=
        Some (AList.update ''Content-Type'' ''application/json''
               (AList.update ''Authorization'' (''Bearer '' @ the_apiKey c)
                 (case headers options of None \<Rightarrow> [] | Some h \<Rightarrow> h)))\<rparr>\<rparr>"

text \<open>
  The end of the failure branch of \<open>request\<close> (lines 669 to 679): the error thrown for a
  status and an accepted envelope.
\<close>

definition status_error :: "platform \<Rightarrow> nat \<Rightarrow> json \<Rightarrow> error" where
  "status_error P st envelope =
     (case STATUS_TO_ERROR st of
        Some e \<Rightarrow> Wrap e ''error response''
      | None \<Rightarrow>
          (let message = toLowerCase P (envelope_message envelope)
           in if length (trim P message) > 0
              then New (''(status: '' @ string_of_nat st @ '') unknown error: '' @ message)
              else New (''(status: '' @ string_of_nat st @ '') unknown error'')))"

definition request :: "platform \<Rightarrow> Client \<Rightarrow> string \<Rightarrow> RequestInit \<Rightarrow> zschema \<Rightarrow> outcome" where
  "request P c endpoint options responseSchema =
     \<lparr>fetched = [fetch_args c endpoint options],
      result =
        (case fetch P (fetch_args c endpoint options) of
           Inl cause \<Rightarrow> Inl (Wrap (Thrown cause) ''unable to fetch response'')
         | Inr response \<Rightarrow>
             if \<not> ok response then
               (case body_text response of
                  Inl cause \<Rightarrow> Inl (Wrap (Thrown cause) ''unable to parse response body text'')
                | Inr t \<Rightarrow>
                    (case JSON_parse P t of
                       Inl cause \<Rightarrow>
                         Inl (Wrap (Thrown cause) ''unable to parse response body json'')
                     | Inr parsed \<Rightarrow>
                         (case safeParse MurekaApiErrorEnvelopeSchema parsed of
                            Inl issues \<Rightarrow>
                              Inl (Wrap (ZodError issues) ''unable to parse error envelope'')
                          | Inr envelope \<Rightarrow> Inl (status_error P (status response) envelope))))
             else
               (case response_json P response of
                  Inl cause \<Rightarrow> Inl (Wrap (Thrown cause) ''mureka api success response parse'')
                | Inr data \<Rightarrow>
                    (case safeParse responseSchema data of
                       Inl issues \<Rightarrow>
                         Inl (Wrap (ZodError issues) ''mureka api success response validation'')
                     | Inr v \<Rightarrow> Inr v)))\<rparr>"

subsection \<open>The endpoint functions\<close>

datatype Purpose = reference | vocal | melody | instrumental | voice

fun purpose_name :: "Purpose \<Rightarrow> string" where
  "purpose_name reference = ''reference''"
| "purpose_name vocal = ''vocal''"
| "purpose_name melody = ''melody''"
| "purpose_name instrumental = ''instrumental''"
| "purpose_name voice = ''voice''"

datatype Model = auto | mureka_6 | mureka_5_5

fun model_name :: "Model \<Rightarrow> string" where
  "model_name auto = ''auto''"
| "model_name mureka_6 = ''mureka-6''"
| "model_name mureka_5_5 = ''mureka-5.5''"

text \<open>
  An input object as the value \<open>JSON.stringify\<close> receives: a property that is
  \<open>undefined\<close> is not part of it. The properties stand in the order of the interface.
\<close>

definition optional_property :: "string \<Rightarrow> string option \<Rightarrow> (string \<times> json) list" where
  "optional_property k v = (case v of None \<Rightarrow> [] | Some s \<Rightarrow> [(k, JStr s)])"

record UploadFileInput =
  upload_file :: File
  purpose :: Purpose

record AddUploadPartInput =
  part_file :: File
  upload_id :: string

record GenerateSongInput =
  lyrics :: string
  song_model :: Model
  song_prompt :: "string option"
  reference_id :: "string option"
  vocal_id :: "string option"
  melody_id :: "string option"

record QuerySongTaskInput =
  task_id :: string

text \<open>The TypeScript type of \<open>model\<close> leaves \<open>mureka-5.5\<close> out; the field here has the whole type.\<close>

record GenerateInstrumentalInput =
  model :: Model
  prompt :: "string option"
  instrumental_id :: "string option"

definition GenerateSongInput_json :: "GenerateSongInput \<Rightarrow> json" where
  "GenerateSongInput_json input =
     JObj ([(''lyrics'', JStr (lyrics input)), (''model'', JStr (model_name (song_model input)))]
           @ optional_property ''prompt'' (song_prompt input)
           @ optional_property ''reference_id'' (reference_id input)
           @ optional_property ''vocal_id'' (vocal_id input)
           @ optional_property ''melody_id'' (melody_id input))"

definition GenerateInstrumentalInput_json :: "GenerateInstrumentalInput \<Rightarrow> json" where
  "GenerateInstrumentalInput_json input =
     JObj ([(''model'', JStr (model_name (model input)))]
           @ optional_property ''prompt'' (prompt input)
           @ optional_property ''instrumental_id'' (instrumental_id input))"

definition uploadFile :: "platform \<Rightarrow> Client \<Rightarrow> UploadFileInput \<Rightarrow> outcome" where
  "uploadFile P c input =
     request P c ''/v1/files/upload''
       \<lparr>http_method = ''POST'',
        body = Some (FormDataBody [(''file'', FormFile (upload_file input)),
                                   (''purpose'', FormString (purpose_name (purpose input)))]),
        headers = None\<rparr>
       UploadFileResponseSchema"

definition generateSong :: "platform \<Rightarrow> Client \<Rightarrow> GenerateSongInput \<Rightarrow> outcome" where
  "generateSong P c input =
     request P c ''/v1/song/generate''
       \<lparr>http_method = ''POST'',
        body = Some (StringBody (JSON_stringify P (GenerateSongInput_json input))),
        headers = None\<rparr>
       GenerateSongResponseSchema"

definition querySongTask :: "platform \<Rightarrow> Client \<Rightarrow> QuerySongTaskInput \<Rightarrow> outcome" where
  "querySongTask P c input =
     request P c (''/v1/song/query/'' @ task_id input)
       \<lparr>http_method = ''GET'', body = None, headers = None\<rparr>
       QuerySongTaskResponseSchema"

definition generateInstrumental ::
  "platform \<Rightarrow> Client \<Rightarrow> GenerateInstrumentalInput \<Rightarrow> outcome" where
  "generateInstrumental P c input =
     (if prompt input = None \<and> instrumental_id input = None
      then \<lparr>fetched = [],
            result = Inl (New ''exactly one of prompt or instrumental_id must be provided'')\<rparr>
      else request P c ''/v1/instrumental/generate''
             \<lparr>http_method = ''POST'',
              body = Some (StringBody (JSON_stringify P (GenerateInstrumentalInput_json input))),
              headers = None\<rparr>
             GenerateInstrumentalResponseSchema)"

definition addUploadPart :: "platform \<Rightarrow> Client \<Rightarrow> AddUploadPartInput \<Rightarrow> outcome" where
  "addUploadPart P c input =
     request P c ''/v1/uploads/add''
       \<lparr>http_method = ''POST'',
        body = Some (FormDataBody [(''upload_id'', FormString (upload_id input)),
                                   (''file'', FormFile (part_file input))]),
        headers = None\<rparr>
       AddUploadPartResponseSchema"

subsection \<open>Reading results\<close>

text \<open>The value of a header of a call of \<open>fetch\<close>.\<close>

definition header :: "fetch_call \<Rightarrow> string \<Rightarrow> string option" where
  "header call name = map_of (case headers (init call) of None \<Rightarrow> [] | Some h \<Rightarrow> h) name"

text \<open>
  Two JSON values are equal field for field: equal atoms, arrays equal item by item, and
  objects where every property of the first is a property of the second with an equal
  value and the second has no further key. The order of the properties does not count.
\<close>

fun json_eq :: "json \<Rightarrow> json \<Rightarrow> bool"
and items_eq :: "json list \<Rightarrow> json list \<Rightarrow> bool"
and fields_in :: "(string \<times> json) list \<Rightarrow> (string \<times> json) list \<Rightarrow> bool"
where
  "json_eq JNull b = (b = JNull)"
| "json_eq (JBool x) b = (b = JBool x)"
| "json_eq (JNum x) b = (b = JNum x)"
| "json_eq (JStr x) b = (b = JStr x)"
| "json_eq (JArr xs) b = (case b of JArr ys \<Rightarrow> items_eq xs ys | _ \<Rightarrow> False)"
| "json_eq (JObj xs) b =
     (case b of
        JObj ys \<Rightarrow> fields_in xs ys \<and> list_all (\<lambda>k. map_of xs k \<noteq> None) (map fst ys)
      | _ \<Rightarrow> False)"
| "items_eq [] ys = (ys = [])"
| "items_eq (x # xs) ys =
     (case ys of [] \<Rightarrow> False | y # ys' \<Rightarrow> json_eq x y \<and> items_eq xs ys')"
| "fields_in [] ys = True"
| "fields_in ((k, x) # xs) ys =
     ((case map_of ys k of None \<Rightarrow> False | Some y \<Rightarrow> json_eq x y) \<and> fields_in xs ys)"

text \<open>
  A JSON value has no field beyond those a schema declares: every key of every object in
  it, at the places the schema describes, is a key of the schema's shape there.
\<close>

fun declared_only :: "zschema \<Rightarrow> json \<Rightarrow> bool"
and declared_only_items :: "zschema \<Rightarrow> json list \<Rightarrow> bool"
and declared_only_shape :: "(string \<times> zschema) list \<Rightarrow> (string \<times> json) list \<Rightarrow> bool"
where
  "declared_only ZString j = True"
| "declared_only ZInt j = True"
| "declared_only (ZEnum vs) j = True"
| "declared_only (ZArray s) j =
     (case j of JArr xs \<Rightarrow> declared_only_items s xs | _ \<Rightarrow> True)"
| "declared_only (ZObject sh) j =
     (case j of
        JObj xs \<Rightarrow>
          list_all (\<lambda>k. map_of sh k \<noteq> None) (map fst xs) \<and> declared_only_shape sh xs
      | _ \<Rightarrow> True)"
| "declared_only (ZOptional s) j = declared_only s j"
| "declared_only_items s [] = True"
| "declared_only_items s (x # xs) = (declared_only s x \<and> declared_only_items s xs)"
| "declared_only_shape [] xs = True"
| "declared_only_shape ((k, s) # sh) xs =
     ((case map_of xs k of None \<Rightarrow> True | Some x \<Rightarrow> declared_only s x)
      \<and> declared_only_shape sh xs)"

subsection \<open>Example data\<close>

text \<open>
  A platform that answers every call of \<open>fetch\<close> with one response, of a given status and
  body text, and whose \<open>JSON.parse\<close> reads that text as a given value and rejects every
  other text. Its \<open>toLowerCase\<close> and \<open>trim\<close> are the ASCII ones; the texts of the
  examples are ASCII.
\<close>

definition canned :: "nat \<Rightarrow> string \<Rightarrow> json \<Rightarrow> platform" where
  "canned st t j =
     \<lparr>fetch = (\<lambda>call. Inr \<lparr>status = st, body_text = Inr t\<rparr>),
      JSON_parse = (\<lambda>s. if s = t then Inr j else Inl ''SyntaxError''),
      JSON_stringify = (\<lambda>v. []),
      toLowerCase = ascii_toLowerCase,
      trim = ascii_trim\<rparr>"

definition example_client :: Client where
  "example_client = Client ''secret'' ''https://api.mureka.ai''"

definition get_options :: RequestInit where
  "get_options = \<lparr>http_method = ''GET'', body = None, headers = None\<rparr>"

definition quota_text :: string where
  \<open>quota_text = ''{"error":{"message":"Quota Exceeded"}}''\<close>

definition quota_json :: json where
  "quota_json = JObj [(''error'', JObj [(''message'', JStr ''Quota Exceeded'')])]"

definition oops_text :: string where
  \<open>oops_text = ''{"oops":true}''\<close>

definition oops_json :: json where
  "oops_json = JObj [(''oops'', JBool True)]"

definition not_found_text :: string where
  \<open>not_found_text = ''{"error":{"message":" Not Found"}}''\<close>

definition not_found_json :: json where
  "not_found_json = JObj [(''error'', JObj [(''message'', JStr '' Not Found'')])]"

definition no_id_text :: string where
  \<open>no_id_text =
     ''{"created_at":1,"finished_at":2,"model":"mureka-6","status":"succeeded","choices":[]}''\<close>

definition no_id_json :: json where
  "no_id_json =
     JObj [(''created_at'', JNum 1), (''finished_at'', JNum 2), (''model'', JStr ''mureka-6''),
           (''status'', JStr ''succeeded''), (''choices'', JArr [])]"

definition song_input :: GenerateSongInput where
  "song_input =
     \<lparr>lyrics = ''la la'', song_model = auto, song_prompt = None, reference_id = None,
      vocal_id = None, melody_id = None\<rparr>"

definition task_text :: string where
  \<open>task_text =
     ''{"status":"succeeded","id":"t1","created_at":1,"finished_at":2,"model":"mureka-6","choices":[{"index":0,"url":"u","flac_url":"f","duration":1000,"lyrics_sections":[{"section_type":"verse","start":0,"end":900,"lines":[{"start":0,"end":900,"text":"la"}]}]}]}''\<close>

definition task_json :: json where
  "task_json =
     JObj [(''status'', JStr ''succeeded''), (''id'', JStr ''t1''), (''created_at'', JNum 1),
           (''finished_at'', JNum 2), (''model'', JStr ''mureka-6''),
           (''choices'', JArr [
              JObj [(''index'', JNum 0), (''url'', JStr ''u''), (''flac_url'', JStr ''f''),
                    (''duration'', JNum 1000),
                    (''lyrics_sections'', JArr [
                       JObj [(''section_type'', JStr ''verse''), (''start'', JNum 0),
                             (''end'', JNum 900),
                             (''lines'', JArr [
                                JObj [(''start'', JNum 0), (''end'', JNum 900),
                                      (''text'', JStr ''la'')]])]])]])]"

definition traced_task_text :: string where
  \<open>traced_task_text =
     ''{"id":"t1","created_at":1,"finished_at":2,"model":"mureka-6","status":"succeeded","choices":[{"index":0,"url":"u","flac_url":"f","duration":1000,"lyrics_sections":[]}],"trace_id":"x"}''\<close>

definition traced_task_json :: json where
  "traced_task_json =
     JObj [(''id'', JStr ''t1''), (''created_at'', JNum 1), (''finished_at'', JNum 2),
           (''model'', JStr ''mureka-6''), (''status'', JStr ''succeeded''),
           (''choices'', JArr [
              JObj [(''index'', JNum 0), (''url'', JStr ''u''), (''flac_url'', JStr ''f''),
                    (''duration'', JNum 1000), (''lyrics_sections'', JArr [])]]),
           (''trace_id'', JStr ''x'')]"

definition untraced_task_json :: json where
  "untraced_task_json =
     JObj [(''id'', JStr ''t1''), (''created_at'', JNum 1), (''finished_at'', JNum 2),
           (''model'', JStr ''mureka-6''), (''status'', JStr ''succeeded''),
           (''choices'', JArr [
              JObj [(''index'', JNum 0), (''url'', JStr ''u''), (''flac_url'', JStr ''f''),
                    (''duration'', JNum 1000), (''lyrics_sections'', JArr [])]])]"

definition file_text :: string where
  \<open>file_text =
     ''{"id":"f1","bytes":3,"created_at":7,"filename":"a.mp3","purpose":"vocal","object":"file"}''\<close>

definition file_json :: json where
  "file_json =
     JObj [(''id'', JStr ''f1''), (''bytes'', JNum 3), (''created_at'', JNum 7),
           (''filename'', JStr ''a.mp3''), (''purpose'', JStr ''vocal''),
           (''object'', JStr ''file'')]"

definition upload_input :: UploadFileInput where
  "upload_input = \<lparr>upload_file = File ''a.mp3'' [73, 68, 51], purpose = vocal\<rparr>"

section \<open>Properties\<close>

subsection \<open>Auxiliary facts\<close>

lemma fetched_request:
  "fetched (request P c endpoint options S) = [fetch_args c endpoint options]"
  by (simp add: request_def)

lemma url_fetch_args: "url (fetch_args c endpoint options) = the_apiBaseUrl c @ endpoint"
  by (simp add: fetch_args_def)

lemma body_fetch_args: "body (init (fetch_args c endpoint options)) = body options"
  by (simp add: fetch_args_def)

lemma authorization_header:
  "header (fetch_args c endpoint options) ''Authorization'' = Some (''Bearer '' @ the_apiKey c)"
  by (simp add: header_def fetch_args_def update_conv')

lemma content_type_header:
  "header (fetch_args c endpoint options) ''Content-Type'' = Some ''application/json''"
  by (simp add: header_def fetch_args_def update_conv')

lemma envelope_accepted:
  "map_of xs ''error'' = Some (JObj ys) \<Longrightarrow> map_of ys ''message'' = Some (JStr m) \<Longrightarrow>
   safeParse MurekaApiErrorEnvelopeSchema (JObj xs) =
     Inr (JObj [(''error'', JObj [(''message'', JStr m)])])"
  by (simp add: MurekaApiErrorEnvelopeSchema_def)

lemma envelope_message_accepted:
  "envelope_message (JObj [(''error'', JObj [(''message'', JStr m)])]) = m"
  by (simp add: envelope_message_def property_def)

lemma known_status_not_ok:
  "status r \<in> {400, 401, 403, 429, 500, 503} \<Longrightarrow> \<not> ok r"
  by (auto simp: ok_def)

lemma fetch_canned: "fetch (canned st t j) call = Inr \<lparr>status = st, body_text = Inr t\<rparr>"
  by (simp add: canned_def)

lemma parse_canned: "JSON_parse (canned st t j) t = Inr j"
  by (simp add: canned_def)

lemma toLowerCase_canned: "toLowerCase (canned st t j) = ascii_toLowerCase"
  by (simp add: canned_def)

lemma trim_canned: "trim (canned st t j) = ascii_trim"
  by (simp add: canned_def)

text \<open>A failed validation has at least one issue.\<close>

lemma under_Nil: "under seg es = [] \<longleftrightarrow> es = []"
  by (simp add: under_def)

lemma issues_nonempty:
  "safeParse s j = Inl es \<Longrightarrow> es \<noteq> []"
  "parse_items s i xs = Inl es \<Longrightarrow> es \<noteq> []"
  "parse_shape sh ys = Inl es \<Longrightarrow> es \<noteq> []"
proof (induction s j and s i xs and sh ys arbitrary: es and es and es
    rule: safeParse_parse_items_parse_shape.induct)
  case (4 s j)
  then show ?case
    by (cases j; cases "parse_items s 0 (case j of JArr xs \<Rightarrow> xs | _ \<Rightarrow> [])") auto
next
  case (5 sh j)
  then show ?case
    by (cases j; cases "parse_shape sh (case j of JObj xs \<Rightarrow> xs | _ \<Rightarrow> [])") auto
next
  case (8 s i x xs)
  then show ?case
    by (cases "safeParse s x"; cases "parse_items s (Suc i) xs") (auto simp: under_Nil)
next
  case (10 k s sh xs)
  show ?case
  proof (cases "parse_shape sh xs")
    case (Inl es')
    with "10.IH"(2) have "es' \<noteq> []" by simp
    with "10.prems" Inl show ?thesis
      by (auto split: sum.splits option.splits)
  next
    case (Inr ws)
    show ?thesis
    proof (cases "map_of xs k")
      case None
      with "10.prems" Inr show ?thesis
        by (auto simp: under_Nil split: zschema.splits)
    next
      case (Some x)
      with "10.prems" Inr obtain e where e: "safeParse s x = Inl e" "es = under (Key k) e"
        by (cases "safeParse s x") (auto split: option.splits)
      from "10.IH"(1) [OF Some e(1)] e(2) show ?thesis by (simp add: under_Nil)
    qed
  qed
qed (auto split: json.splits if_splits)

text \<open>
  What validation returns has no field that the value did not have, and none with another
  value; when the value has only declared fields, none is missing either.
\<close>

lemma validated_eq:
  "safeParse s j = Inr v \<Longrightarrow> declared_only s j \<Longrightarrow> json_eq v j"
  "parse_items s i xs = Inr vs \<Longrightarrow> declared_only_items s xs \<Longrightarrow> items_eq vs xs"
  "parse_shape sh ys = Inr ws \<Longrightarrow> declared_only_shape sh ys \<Longrightarrow>
     fields_in ws ys
     \<and> (\<forall>k. map_of sh k \<noteq> None \<longrightarrow> map_of ys k \<noteq> None \<longrightarrow> map_of ws k \<noteq> None)"
proof (induction s j and s i xs and sh ys arbitrary: v and vs and ws
    rule: safeParse_parse_items_parse_shape.induct)
  case (1 j)
  then show ?case by (auto split: json.splits)
next
  case (2 j)
  then show ?case by (auto split: json.splits if_splits)
next
  case (3 vs j)
  then show ?case by (auto split: json.splits if_splits)
next
  case (4 s j)
  then show ?case
    by (cases j; cases "parse_items s 0 (case j of JArr xs \<Rightarrow> xs | _ \<Rightarrow> [])") auto
next
  case (5 sh j)
  show ?case
  proof (cases j)
    case (JObj xs)
    with 5 obtain ws where ws: "parse_shape sh xs = Inr ws" "v = JObj ws"
      by (cases "parse_shape sh xs") auto
    from 5 JObj
    have d: "list_all (\<lambda>k. map_of sh k \<noteq> None) (map fst xs)" "declared_only_shape sh xs"
      by auto
    from 5(1) [OF JObj ws(1) d(2)]
    have f: "fields_in ws xs"
      and m: "\<And>k. map_of sh k \<noteq> None \<Longrightarrow> map_of xs k \<noteq> None \<Longrightarrow> map_of ws k \<noteq> None"
      by auto
    have "list_all (\<lambda>k. map_of ws k \<noteq> None) (map fst xs)"
      unfolding list_all_iff
    proof
      fix k assume k: "k \<in> set (map fst xs)"
      then have "map_of sh k \<noteq> None" using d(1) by (auto simp: list_all_iff)
      moreover have "map_of xs k \<noteq> None" using k by (simp add: map_of_eq_None_iff)
      ultimately show "map_of ws k \<noteq> None" by (rule m)
    qed
    with f show ?thesis using JObj ws by simp
  qed (use 5 in auto)
next
  case (6 s j)
  then show ?case by simp
next
  case (7 s i)
  then show ?case by simp
next
  case (8 s i x xs)
  then show ?case by (auto split: sum.splits)
next
  case (9 xs)
  then show ?case by simp
next
  case (10 k s sh xs)
  from "10.prems"(1) obtain ws' where ws': "parse_shape sh xs = Inr ws'"
    by (cases "parse_shape sh xs") (auto split: sum.splits option.splits)
  from "10.prems"(2) have d: "declared_only_shape sh xs" by simp
  from "10.IH"(2) [OF ws' d]
  have f: "fields_in ws' xs"
    and m: "\<And>k'. map_of sh k' \<noteq> None \<Longrightarrow> map_of xs k' \<noteq> None \<Longrightarrow> map_of ws' k' \<noteq> None"
    by auto
  show ?case
  proof (cases "map_of xs k")
    case None
    with "10.prems"(1) ws' have "ws = ws'"
      by (auto split: zschema.splits)
    with f m None show ?thesis by auto
  next
    case (Some x)
    with "10.prems"(1) ws' obtain v where v: "safeParse s x = Inr v" "ws = (k, v) # ws'"
      by (cases "safeParse s x") auto
    from "10.prems"(2) Some have "declared_only s x" by simp
    from "10.IH"(1) [OF Some v(1) this] have "json_eq v x" .
    with f m Some v(2) show ?thesis by auto
  qed
qed

subsection \<open>Failure responses\<close>

text \<open>
  C1. A response whose status is one of 400, 401, 403, 429, 500 and 503, and whose body is
  the text of an object with an \<open>error\<close> object that has a string \<open>message\<close>, makes
  \<open>request\<close> throw the error of that status in the table (\<open>ErrInvalidRequest\<close>,
  \<open>ErrInvalidAuthentication\<close>, \<open>ErrForbidden\<close>, \<open>ErrRateLimitOrQuotaExceeded\<close>,
  \<open>ErrServerError\<close>, \<open>ErrEngineOverloaded\<close>) wrapped as \<open>error response\<close>. The message
  \<open>m\<close> is no part of the error.
\<close>

theorem known_status_error:
  assumes "fetch P (fetch_args c endpoint options) = Inr response"
    and "status response \<in> {400, 401, 403, 429, 500, 503}"
    and "body_text response = Inr t"
    and "JSON_parse P t = Inr (JObj xs)"
    and "map_of xs ''error'' = Some (JObj ys)"
    and "map_of ys ''message'' = Some (JStr m)"
  shows "result (request P c endpoint options S) =
           Inl (Wrap (if status response = 400 then ErrInvalidRequest
                      else if status response = 401 then ErrInvalidAuthentication
                      else if status response = 403 then ErrForbidden
                      else if status response = 429 then ErrRateLimitOrQuotaExceeded
                      else if status response = 500 then ErrServerError
                      else ErrEngineOverloaded) ''error response'')"
proof -
  have nok: "\<not> ok response"
    using assms(2) by (rule known_status_not_ok)
  have known: "STATUS_TO_ERROR (status response) =
      Some (if status response = 400 then ErrInvalidRequest
            else if status response = 401 then ErrInvalidAuthentication
            else if status response = 403 then ErrForbidden
            else if status response = 429 then ErrRateLimitOrQuotaExceeded
            else if status response = 500 then ErrServerError
            else ErrEngineOverloaded)"
    using assms(2) by (auto simp: STATUS_TO_ERROR_def)
  show ?thesis
    using assms(1,3,4) nok known envelope_accepted [OF assms(5,6)]
    by (simp add: request_def status_error_def)
qed

theorem known_status_error_witness:
  "result (request (canned 429 quota_text quota_json) example_client ''/v1/account/billing''
             get_options UploadFileResponseSchema)
     = Inl (Wrap ErrRateLimitOrQuotaExceeded ''error response'')"
  using known_status_error [where P = "canned 429 quota_text quota_json"
      and response = "\<lparr>status = 429, body_text = Inr quota_text\<rparr>" and t = quota_text
      and xs = "[(''error'', JObj [(''message'', JStr ''Quota Exceeded'')])]"
      and ys = "[(''message'', JStr ''Quota Exceeded'')]" and m = "''Quota Exceeded''"
      and c = example_client and endpoint = "''/v1/account/billing''"
      and options = get_options and S = UploadFileResponseSchema]
  by (simp add: fetch_canned parse_canned quota_json_def)

text \<open>
  C4. For a response whose status is not from 200 to 299, \<open>request\<close> reads the body in a
  fixed order. If \<open>response.text()\<close> rejects, it throws the cause wrapped as \<open>unable to
  parse response body text\<close>; otherwise, if \<open>JSON.parse\<close> throws, the cause wrapped as
  \<open>unable to parse response body json\<close>; otherwise, if the envelope schema rejects the
  value, the issues wrapped as \<open>unable to parse error envelope\<close>. Only then does the
  status count. So a status 400 with a JSON body that is no envelope gives the envelope
  error, not \<open>ErrInvalidRequest\<close>.
\<close>

theorem failure_body_order:
  assumes "fetch P (fetch_args c endpoint options) = Inr response"
    and "\<not> ok response"
  shows "result (request P c endpoint options S) =
           Inl (case body_text response of
                  Inl cause \<Rightarrow> Wrap (Thrown cause) ''unable to parse response body text''
                | Inr t \<Rightarrow>
                    (case JSON_parse P t of
                       Inl cause \<Rightarrow> Wrap (Thrown cause) ''unable to parse response body json''
                     | Inr parsed \<Rightarrow>
                         (case safeParse MurekaApiErrorEnvelopeSchema parsed of
                            Inl issues \<Rightarrow>
                              Wrap (ZodError issues) ''unable to parse error envelope''
                          | Inr envelope \<Rightarrow> status_error P (status response) envelope)))"
  using assms by (simp add: request_def split: sum.split)

theorem failure_body_order_witness:
  "\<not> ok \<lparr>status = 400, body_text = Inr oops_text\<rparr>
   \<and> result (request (canned 400 oops_text oops_json) example_client ''/v1/account/billing''
               get_options UploadFileResponseSchema)
       = Inl (Wrap (ZodError [\<lparr>code = invalid_type ''object'' ''undefined'',
                               path = [Key ''error'']\<rparr>])
                ''unable to parse error envelope'')"
  using failure_body_order [where P = "canned 400 oops_text oops_json"
      and response = "\<lparr>status = 400, body_text = Inr oops_text\<rparr>"
      and c = example_client and endpoint = "''/v1/account/billing''"
      and options = get_options and S = UploadFileResponseSchema]
  by (simp add: fetch_canned parse_canned ok_def oops_json_def MurekaApiErrorEnvelopeSchema_def
      issue_def under_def)

text \<open>
  C5, as the code has it. A response whose status is neither from 200 to 299 nor in the
  table, with an envelope body, makes \<open>request\<close> throw a new error whose text has the
  status and, when the message is not empty after trimming, the lower-cased message as
  it stands: the message is trimmed for the test only, and what follows \<open>unknown error:\<close>
  keeps its leading and trailing white space. When the trimmed message is empty, the text
  ends after \<open>unknown error\<close>. This holds for every message and for whatever
  \<open>toLowerCase\<close> and \<open>trim\<close> the platform has.
\<close>

theorem unknown_status_error:
  assumes "fetch P (fetch_args c endpoint options) = Inr response"
    and "\<not> ok response"
    and "status response \<notin> {400, 401, 403, 429, 500, 503}"
    and "body_text response = Inr t"
    and "JSON_parse P t = Inr (JObj xs)"
    and "map_of xs ''error'' = Some (JObj ys)"
    and "map_of ys ''message'' = Some (JStr m)"
  shows "result (request P c endpoint options S) =
           Inl (New (''(status: '' @ string_of_nat (status response) @ '') unknown error''
                     @ (if trim P (toLowerCase P m) = [] then []
                        else '': '' @ toLowerCase P m)))"
proof -
  have unknown: "STATUS_TO_ERROR (status response) = None"
    using assms(3) by (simp add: STATUS_TO_ERROR_def)
  show ?thesis
    using assms(1,2,4,5) unknown envelope_accepted [OF assms(6,7)]
    by (simp add: request_def status_error_def envelope_message_accepted Let_def)
qed

theorem unknown_status_error_witness:
  "\<not> ok \<lparr>status = 404, body_text = Inr not_found_text\<rparr>
   \<and> result (request (canned 404 not_found_text not_found_json) example_client
               ''/v1/song/query/t1'' get_options QuerySongTaskResponseSchema)
       = Inl (New ''(status: 404) unknown error:  not found'')"
  using unknown_status_error [where P = "canned 404 not_found_text not_found_json"
      and response = "\<lparr>status = 404, body_text = Inr not_found_text\<rparr>"
      and t = not_found_text
      and xs = "[(''error'', JObj [(''message'', JStr '' Not Found'')])]"
      and ys = "[(''message'', JStr '' Not Found'')]" and m = "'' Not Found''"
      and c = example_client and endpoint = "''/v1/song/query/t1''"
      and options = get_options and S = QuerySongTaskResponseSchema]
  by (simp add: fetch_canned parse_canned toLowerCase_canned trim_canned ok_def
      not_found_json_def ascii_toLowerCase_def lower_char_def ascii_trim_def is_space_def
      digit_def)

text \<open>
  C5 with the trimmed message does not hold: for status 404 and the message
  \<open>'' Not Found''\<close> the trimmed, lower-cased message is \<open>''not found''\<close>, and the
  error thrown does not carry it; it carries the lower-cased message with its leading
  blank.
\<close>

theorem unknown_status_trimmed_counterexample:
  "trim (canned 404 not_found_text not_found_json)
     (toLowerCase (canned 404 not_found_text not_found_json) '' Not Found'') = ''not found''
   \<and> result (request (canned 404 not_found_text not_found_json) example_client
               ''/v1/song/query/t1'' get_options QuerySongTaskResponseSchema)
       = Inl (New ''(status: 404) unknown error:  not found'')
   \<and> result (request (canned 404 not_found_text not_found_json) example_client
               ''/v1/song/query/t1'' get_options QuerySongTaskResponseSchema)
       \<noteq> Inl (New ''(status: 404) unknown error: not found'')"
  by (simp add: request_def fetch_canned parse_canned toLowerCase_canned trim_canned ok_def
      not_found_json_def MurekaApiErrorEnvelopeSchema_def status_error_def STATUS_TO_ERROR_def
      envelope_message_def property_def ascii_toLowerCase_def lower_char_def ascii_trim_def
      is_space_def digit_def Let_def)

subsection \<open>Success responses\<close>

text \<open>
  C6. For a response with a status from 200 to 299 whose body can be read: if
  \<open>JSON.parse\<close> throws, \<open>request\<close> throws the cause wrapped as \<open>mureka api success
  response parse\<close>; if the schema of the endpoint rejects the parsed value, it throws the
  issues of the validator wrapped as \<open>mureka api success response validation\<close> and
  returns no value; otherwise it returns the output of the validator.
\<close>

theorem success_validation:
  assumes "fetch P (fetch_args c endpoint options) = Inr response"
    and "ok response"
    and "body_text response = Inr t"
  shows "result (request P c endpoint options S) =
           (case JSON_parse P t of
              Inl cause \<Rightarrow> Inl (Wrap (Thrown cause) ''mureka api success response parse'')
            | Inr data \<Rightarrow>
                (case safeParse S data of
                   Inl issues \<Rightarrow>
                     Inl (Wrap (ZodError issues) ''mureka api success response validation'')
                 | Inr v \<Rightarrow> Inr v))"
  using assms by (simp add: request_def response_json_def split: sum.split)

theorem success_validation_witness:
  "ok \<lparr>status = 200, body_text = Inr no_id_text\<rparr>
   \<and> result (generateSong (canned 200 no_id_text no_id_json) example_client song_input)
       = Inl (Wrap (ZodError [\<lparr>code = invalid_type ''string'' ''undefined'',
                               path = [Key ''id'']\<rparr>])
                ''mureka api success response validation'')"
  using success_validation [where P = "canned 200 no_id_text no_id_json"
      and response = "\<lparr>status = 200, body_text = Inr no_id_text\<rparr>" and t = no_id_text
      and c = example_client and endpoint = "''/v1/song/generate''"
      and S = GenerateSongResponseSchema
      and options = "\<lparr>http_method = ''POST'',
         body = Some (StringBody (JSON_stringify (canned 200 no_id_text no_id_json)
                  (GenerateSongInput_json song_input))),
         headers = None\<rparr>"]
  by (simp add: generateSong_def fetch_canned parse_canned ok_def no_id_json_def
      GenerateSongResponseSchema_def TASK_STATUSES_def isInteger_def issue_def under_def)

text \<open>
  Field-for-field equality tells a value from the same value with one more property.
\<close>

lemma json_eq_extra_property:
  "\<not> json_eq (JObj [(''id'', JStr ''f1'')]) (JObj [(''id'', JStr ''f1''), (''object'', JStr ''file'')])
   \<and> json_eq (JObj [(''id'', JStr ''f1''), (''bytes'', JNum 3)])
              (JObj [(''bytes'', JNum 3), (''id'', JStr ''f1'')])"
  by simp

text \<open>
  C7, as the code has it. For a response to \<open>querySongTask\<close> with a status from 200 to
  299 whose body the schema accepts and which has no field beyond the declared ones,
  \<open>querySongTask\<close> returns the validated value, and that value is equal to the parsed
  body field for field: no field is added, removed or changed. The example is a task
  with the status \<open>succeeded\<close> and one choice, with its properties in another order than
  the schema's.
\<close>

theorem querySongTask_roundtrip:
  assumes "fetch P (fetch_args c (''/v1/song/query/'' @ task_id input)
                      \<lparr>http_method = ''GET'', body = None, headers = None\<rparr>) = Inr response"
    and "ok response"
    and "body_text response = Inr t"
    and "JSON_parse P t = Inr data"
    and "safeParse QuerySongTaskResponseSchema data = Inr v"
    and "declared_only QuerySongTaskResponseSchema data"
  shows "result (querySongTask P c input) = Inr v \<and> json_eq v data"
proof
  show "result (querySongTask P c input) = Inr v"
    using assms(1-5) by (simp add: querySongTask_def request_def response_json_def)
  show "json_eq v data"
    using assms(5,6) by (rule validated_eq(1))
qed

lemma task_json_accepted:
  "safeParse QuerySongTaskResponseSchema task_json =
     Inr (JObj [(''id'', JStr ''t1''), (''created_at'', JNum 1), (''finished_at'', JNum 2),
                (''model'', JStr ''mureka-6''), (''status'', JStr ''succeeded''),
                (''choices'', JArr [
                   JObj [(''index'', JNum 0), (''url'', JStr ''u''), (''flac_url'', JStr ''f''),
                         (''duration'', JNum 1000),
                         (''lyrics_sections'', JArr [
                            JObj [(''section_type'', JStr ''verse''), (''start'', JNum 0),
                                  (''end'', JNum 900),
                                  (''lines'', JArr [
                                     JObj [(''start'', JNum 0), (''end'', JNum 900),
                                           (''text'', JStr ''la'')]])]])]])])"
  by (simp add: QuerySongTaskResponseSchema_def task_json_def SongChoiceSchema_def
      SongLyricsSectionSchema_def SongLyricsLineSchema_def TASK_STATUSES_def SECTION_TYPES_def
      isInteger_def)

lemma task_json_declared_only: "declared_only QuerySongTaskResponseSchema task_json"
  by (simp add: QuerySongTaskResponseSchema_def task_json_def SongChoiceSchema_def
      SongLyricsSectionSchema_def SongLyricsLineSchema_def)

theorem querySongTask_roundtrip_witness:
  "ok \<lparr>status = 200, body_text = Inr task_text\<rparr>
   \<and> declared_only QuerySongTaskResponseSchema task_json
   \<and> (case result (querySongTask (canned 200 task_text task_json) example_client
                     \<lparr>task_id = ''t1''\<rparr>) of
        Inl e \<Rightarrow> False
      | Inr v \<Rightarrow> json_eq v task_json)"
  using querySongTask_roundtrip [where P = "canned 200 task_text task_json"
      and response = "\<lparr>status = 200, body_text = Inr task_text\<rparr>" and t = task_text
      and data = task_json and c = example_client and input = "\<lparr>task_id = ''t1''\<rparr>",
      OF _ _ _ _ task_json_accepted task_json_declared_only]
  by (simp add: fetch_canned parse_canned ok_def task_json_declared_only)

text \<open>
  C7 for every body that the schema accepts does not hold. The body of the example has
  the status \<open>succeeded\<close>, one choice with \<open>index\<close>, \<open>url\<close>, \<open>flac_url\<close>,
  \<open>duration\<close> and \<open>lyrics_sections\<close>, and one more property, \<open>trace_id\<close>. The
  schema accepts it, \<open>querySongTask\<close> returns it without \<open>trace_id\<close>, and what is
  returned is not equal to the body field for field.
\<close>

theorem querySongTask_roundtrip_counterexample:
  "ok \<lparr>status = 200, body_text = Inr traced_task_text\<rparr>
   \<and> safeParse QuerySongTaskResponseSchema traced_task_json = Inr untraced_task_json
   \<and> result (querySongTask (canned 200 traced_task_text traced_task_json) example_client
               \<lparr>task_id = ''t1''\<rparr>) = Inr untraced_task_json
   \<and> property traced_task_json ''trace_id'' = Some (JStr ''x'')
   \<and> property untraced_task_json ''trace_id'' = None
   \<and> \<not> json_eq untraced_task_json traced_task_json"
  by (simp add: querySongTask_def request_def response_json_def fetch_canned parse_canned
      ok_def QuerySongTaskResponseSchema_def traced_task_json_def untraced_task_json_def
      SongChoiceSchema_def TASK_STATUSES_def isInteger_def property_def)







subsection \<open>The request sent\<close>

text \<open>
  C2, what the code does. \<open>uploadFile\<close> and \<open>addUploadPart\<close> each make one call of
  \<open>fetch\<close>; its body is the \<open>FormData\<close> with the two entries, and its headers have
  \<open>Content-Type: application/json\<close>, which \<open>request\<close> sets for every call.
\<close>

theorem multipart_content_type:
  "map (\<lambda>call. (body (init call), header call ''Content-Type''))
       (fetched (uploadFile P c input))
     = [(Some (FormDataBody [(''file'', FormFile (upload_file input)),
                             (''purpose'', FormString (purpose_name (purpose input)))]),
         Some ''application/json'')]
   \<and> map (\<lambda>call. (body (init call), header call ''Content-Type''))
         (fetched (addUploadPart P c part))
     = [(Some (FormDataBody [(''upload_id'', FormString (upload_id part)),
                             (''file'', FormFile (part_file part))]),
         Some ''application/json'')]"
  by (simp add: uploadFile_def addUploadPart_def fetched_request body_fetch_args
      content_type_header)

text \<open>
  C3, what the code does. \<open>generateInstrumental\<close> tests only whether both \<open>prompt\<close> and
  \<open>instrumental_id\<close> are absent: then it throws without a call of \<open>fetch\<close>. With
  both set it makes the call, as with one of them, and what it throws or returns is what
  \<open>request\<close> does, never the error of the test.
\<close>

lemma request_not_precondition_error:
  "result (request P c endpoint options S)
     \<noteq> Inl (New ''exactly one of prompt or instrumental_id must be provided'')"
  by (auto simp: request_def status_error_def Let_def split: sum.splits option.splits)

theorem generateInstrumental_precondition:
  "fetched (generateInstrumental P c \<lparr>model = m, prompt = None, instrumental_id = None\<rparr>) = []
   \<and> result (generateInstrumental P c \<lparr>model = m, prompt = None, instrumental_id = None\<rparr>)
       = Inl (New ''exactly one of prompt or instrumental_id must be provided'')
   \<and> fetched (generateInstrumental P c \<lparr>model = m, prompt = Some p, instrumental_id = Some i\<rparr>)
       = [fetch_args c ''/v1/instrumental/generate''
            \<lparr>http_method = ''POST'',
             body = Some (StringBody (JSON_stringify P
                      (JObj [(''model'', JStr (model_name m)), (''prompt'', JStr p),
                             (''instrumental_id'', JStr i)]))),
             headers = None\<rparr>]
   \<and> result (generateInstrumental P c \<lparr>model = m, prompt = Some p, instrumental_id = Some i\<rparr>)
       \<noteq> Inl (New ''exactly one of prompt or instrumental_id must be provided'')"
  by (simp add: generateInstrumental_def fetched_request request_not_precondition_error
      GenerateInstrumentalInput_json_def optional_property_def)

subsection \<open>Construction\<close>

text \<open>
  C8. \<open>createClient\<close> throws \<open>mureka api key required\<close> when the configuration has no
  \<open>apiKey\<close>. With an \<open>apiKey\<close> it returns a client whose key is that one and whose base
  URL is the configured one, or \<open>https://api.mureka.ai\<close> when none is configured; every
  call that client makes goes to that base URL followed by the endpoint and carries that
  key as its bearer token.
\<close>

theorem createClient_credential:
  "(case apiKey config of
      None \<Rightarrow> createClient config = Inl (New ''mureka api key required'')
    | Some k \<Rightarrow>
        (\<exists>c. createClient config = Inr c
           \<and> the_apiKey c = k
           \<and> the_apiBaseUrl c =
               (case apiBaseUrl config of None \<Rightarrow> ''https://api.mureka.ai'' | Some b \<Rightarrow> b)
           \<and> (\<forall>P endpoint options S.
                 map url (fetched (request P c endpoint options S))
                   = [(case apiBaseUrl config of None \<Rightarrow> ''https://api.mureka.ai''
                       | Some b \<Rightarrow> b) @ endpoint]
                 \<and> map (\<lambda>call. header call ''Authorization'')
                       (fetched (request P c endpoint options S))
                     = [Some (''Bearer '' @ k)])))"
  by (simp add: createClient_def MUREKA_API_BASE_URL_def fetched_request authorization_header
      url_fetch_args split: option.split)

theorem createClient_credential_witness:
  "createClient \<lparr>apiKey = None, apiBaseUrl = Some ''http://localhost''\<rparr>
     = Inl (New ''mureka api key required'')
   \<and> createClient \<lparr>apiKey = Some ''secret'', apiBaseUrl = None\<rparr>
       = Inr (Client ''secret'' ''https://api.mureka.ai'')
   \<and> createClient \<lparr>apiKey = Some ''secret'', apiBaseUrl = Some ''http://localhost''\<rparr>
       = Inr (Client ''secret'' ''http://localhost'')"
  using createClient_credential [of "\<lparr>apiKey = None, apiBaseUrl = Some ''http://localhost''\<rparr>"]
    createClient_credential [of "\<lparr>apiKey = Some ''secret'', apiBaseUrl = None\<rparr>"]
    createClient_credential [of "\<lparr>apiKey = Some ''secret'', apiBaseUrl = Some ''http://localhost''\<rparr>"]
  by (auto simp: Client.expand)

text \<open>
  C9. \<open>createClient\<close> rejects an absent \<open>apiKey\<close> and nothing else: for every string,
  the empty one too, it returns a client with that key, and every call the client makes
  has the header \<open>Authorization\<close> with \<open>Bearer\<close>, a blank and the key. For the empty
  string the value of the header is \<open>Bearer\<close> and a blank with nothing after it.
\<close>

theorem empty_apiKey_accepted:
  "createClient \<lparr>apiKey = None, apiBaseUrl = b\<rparr> = Inl (New ''mureka api key required'')
   \<and> (\<forall>k. \<exists>c. createClient \<lparr>apiKey = Some k, apiBaseUrl = b\<rparr> = Inr c
          \<and> the_apiKey c = k
          \<and> (\<forall>P endpoint options S.
                map (\<lambda>call. header call ''Authorization'')
                    (fetched (request P c endpoint options S)) = [Some (''Bearer '' @ k)]))
   \<and> (\<exists>c. createClient \<lparr>apiKey = Some [], apiBaseUrl = b\<rparr> = Inr c
         \<and> the_apiKey c = []
         \<and> (\<forall>P endpoint options S.
               map (\<lambda>call. header call ''Authorization'')
                   (fetched (request P c endpoint options S)) = [Some ''Bearer '']))"
  by (simp add: createClient_def fetched_request authorization_header)

theorem empty_apiKey_accepted_witness:
  "createClient \<lparr>apiKey = None, apiBaseUrl = None\<rparr> = Inl (New ''mureka api key required'')
   \<and> createClient \<lparr>apiKey = Some [], apiBaseUrl = None\<rparr>
       = Inr (Client [] ''https://api.mureka.ai'')
   \<and> createClient \<lparr>apiKey = Some ''secret'', apiBaseUrl = None\<rparr>
       = Inr (Client ''secret'' ''https://api.mureka.ai'')
   \<and> map (\<lambda>call. header call ''Authorization'')
         (fetched (uploadFile (canned 200 file_text file_json)
                    (Client [] ''https://api.mureka.ai'') upload_input))
       = [Some ''Bearer '']"
  using empty_apiKey_accepted [of None]
  by (auto simp: createClient_def MUREKA_API_BASE_URL_def uploadFile_def)

end
